theory Spec2Isabelle
  imports Main "HOL-Library.Sublist"
begin

section \<open>Python values and library calls used by \<open>mergekit/architecture.py\<close>\<close>

text \<open>
  Exceptions are values: every function that can raise returns \<open>error + 'a\<close>, with
  \<open>Inl\<close> for the exception. \<open>RuntimeError\<close> is the only exception the module raises
  itself; the others are raised by the Python run time on its behalf. \<open>NotModelled\<close>
  is not a Python exception: it marks a library call whose outcome this theory does
  not describe, and no statement below rests on such an outcome.
\<close>

datatype error =
    RuntimeError string
  | TypeError string
  | AttributeError string
  | ValueError string
  | KeyError string
  | NotModelled string

subsection \<open>\<open>str(int)\<close>\<close>

text \<open>
  Python formats an \<open>int\<close> in decimal, without leading zeros, with a leading \<open>-\<close>
  for a negative number. Both \<open>'{idx}'.format(idx=index)\<close> and an f-string field
  \<open>{expert_idx}\<close> produce this text.
\<close>

definition digit_char :: "nat \<Rightarrow> char" where
  "digit_char n = ''0123456789'' ! n"

fun str_nat :: "nat \<Rightarrow> string" where
  "str_nat n = (if n < 10 then [digit_char n] else str_nat (n div 10) @ [digit_char (n mod 10)])"

declare str_nat.simps [simp del]

definition str_int :: "int \<Rightarrow> string" where
  "str_int i = (if i < 0 then CHR ''-'' # str_nat (nat (- i)) else str_nat (nat i))"

subsection \<open>\<open>range(n)\<close>\<close>

definition range_py :: "int \<Rightarrow> int list" where
  "range_py n = [0..n - 1]"

subsection \<open>\<open>template.format(idx=index)\<close>\<close>

text \<open>
  \<open>str.format\<close> with the single keyword argument \<open>idx\<close>. Literal text is copied,
  \<open>{{\<close> and \<open>}}\<close> are the escaped braces, the replacement field \<open>{idx}\<close> is replaced by
  \<open>str(index)\<close>, and a single \<open>}\<close>, or a \<open>{\<close> that ends the template, raises
  ValueError. Every template of the module is literal text followed by \<open>{idx}\<close>.
  Python's further field syntax is outside this function: with a format specification
  (\<open>{idx:02d}\<close>), a conversion (\<open>{idx!r}\<close>), an attribute or an index on the field, or
  another field name, \<open>str.format\<close> returns some other text or raises KeyError,
  IndexError, ValueError or, depending on the index, OverflowError (\<open>{idx:c}\<close>); here
  every such field gives \<open>NotModelled\<close>. The predicate \<open>template_ok\<close> holds of the
  templates without such a field and without a single brace: on them the function is
  \<open>str.format\<close> and returns.
\<close>

fun format_idx :: "string \<Rightarrow> int \<Rightarrow> error + string" where
  "format_idx [] index = Inr []"
| "format_idx (c # cs) index =
     (if c = CHR ''{'' then
        (if cs = [] then Inl (ValueError ''Single '{' encountered in format string'')
         else if take 1 cs = ''{'' then map_sum id ((#) CHR ''{'') (format_idx (drop 1 cs) index)
         else if take 4 cs = ''idx}'' then
           map_sum id ((@) (str_int index)) (format_idx (drop 4 cs) index)
         else Inl (NotModelled ''replacement field other than {idx}''))
      else if c = CHR ''}'' then
        (if take 1 cs = ''}'' then map_sum id ((#) CHR ''}'') (format_idx (drop 1 cs) index)
         else Inl (ValueError ''Single '}' encountered in format string''))
      else map_sum id ((#) c) (format_idx cs index))"

fun template_ok :: "string \<Rightarrow> bool" where
  "template_ok [] = True"
| "template_ok (c # cs) =
     (if c = CHR ''{'' then
        (if cs = [] then False
         else if take 1 cs = ''{'' then template_ok (drop 1 cs)
         else if take 4 cs = ''idx}'' then template_ok (drop 4 cs)
         else False)
      else if c = CHR ''}'' then
        (if take 1 cs = ''}'' then template_ok (drop 1 cs) else False)
      else template_ok cs)"

subsection \<open>The configuration object\<close>

text \<open>
  \<open>transformers.PretrainedConfig\<close> is not part of the module. The module reads from it
  the list \<open>architectures\<close>, the string \<open>model_type\<close>, and integer attributes by name
  (\<open>num_hidden_layers\<close>, \<open>n_layer\<close>, \<open>num_local_experts\<close>, or whatever key a descriptor
  names); \<open>attrs\<close> holds the integer attributes, and reading an absent one raises
  AttributeError, as \<open>getattr\<close> does.
\<close>

record PretrainedConfig =
  architectures :: "string list"
  model_type :: string
  attrs :: "string \<rightharpoonup> int"

definition getattr :: "PretrainedConfig \<Rightarrow> string \<Rightarrow> error + int" where
  "getattr config key =
     (case attrs config key of
        None \<Rightarrow> Inl (AttributeError key)
      | Some v \<Rightarrow> Inr v)"

section \<open>WeightInfo\<close>

record WeightInfo =
  name :: string
  is_embed :: bool
  input_space :: "string option"
  output_space :: "string option"
  optional :: bool
  aliases :: "string list option"

text \<open>The constructor call \<open>WeightInfo(name=n, is_embed=e)\<close>, the other fields at their defaults.\<close>

definition mk_WeightInfo :: "string \<Rightarrow> bool \<Rightarrow> WeightInfo" where
  "mk_WeightInfo n e =
     \<lparr>WeightInfo.name = n, is_embed = e, input_space = None, output_space = None,
      optional = False, aliases = None\<rparr>"

section \<open>StaticTensorNames\<close>

record StaticTensorNames =
  name :: string
  pre_weight_names :: "string list"
  post_weight_names :: "string list"
  embed_weight_names :: "string list"
  layer_prefix_format :: string
  layer_weight_suffixes :: "string list"
  num_layers_key :: "string option"

definition make_weightinfo :: "StaticTensorNames \<Rightarrow> string \<Rightarrow> WeightInfo" where
  "make_weightinfo self n = mk_WeightInfo n (n \<in> set (embed_weight_names self))"

definition StaticTensorNames_pre_weights :: "StaticTensorNames \<Rightarrow> WeightInfo list" where
  "StaticTensorNames_pre_weights self = map (make_weightinfo self) (pre_weight_names self)"

definition StaticTensorNames_post_weights :: "StaticTensorNames \<Rightarrow> WeightInfo list" where
  "StaticTensorNames_post_weights self = map (make_weightinfo self) (post_weight_names self)"

text \<open>
  The loop of \<open>StaticTensorNames.layer_weights\<close>: the template is formatted anew for
  every suffix, and the first exception ends the loop.
\<close>

fun static_layer_loop ::
  "StaticTensorNames \<Rightarrow> int \<Rightarrow> string list \<Rightarrow> WeightInfo list \<Rightarrow> error + WeightInfo list" where
  "static_layer_loop self index [] res = Inr res"
| "static_layer_loop self index (sfx # rest) res =
     (case format_idx (layer_prefix_format self) index of
        Inl e \<Rightarrow> Inl e
      | Inr p \<Rightarrow>
          static_layer_loop self index rest
            (res @ [make_weightinfo self (p @ ''.'' @ sfx)]))"

text \<open>
  \<open>layer_weights\<close> is declared \<open>Optional[List[WeightInfo]]\<close>: \<open>None\<close> is the
  ``no such layer'' result.
\<close>

definition StaticTensorNames_layer_weights ::
  "StaticTensorNames \<Rightarrow> int \<Rightarrow> error + WeightInfo list option" where
  "StaticTensorNames_layer_weights self index =
     map_sum id Some (static_layer_loop self index (layer_weight_suffixes self) [])"

text \<open>The default of the base class, \<open>ArchitectureInfo.num_layers_config_key\<close>.\<close>

definition default_num_layers_config_key :: string where
  "default_num_layers_config_key = ''num_hidden_layers''"

text \<open>\<open>if self.num_layers_key\<close> is false for \<open>None\<close> and for the empty string.\<close>

definition StaticTensorNames_num_layers_config_key :: "StaticTensorNames \<Rightarrow> string" where
  "StaticTensorNames_num_layers_config_key self =
     (case num_layers_key self of
        Some k \<Rightarrow> if k \<noteq> [] then k else default_num_layers_config_key
      | None \<Rightarrow> default_num_layers_config_key)"

section \<open>The static descriptors\<close>

definition LLAMA_INFO :: StaticTensorNames where
  "LLAMA_INFO =
     \<lparr>StaticTensorNames.name = ''LlamaForCausalLM'',
      pre_weight_names = [''model.embed_tokens.weight''],
      post_weight_names = [''model.norm.weight'', ''lm_head.weight''],
      embed_weight_names = [''model.embed_tokens.weight'', ''lm_head.weight''],
      layer_prefix_format = ''model.layers.{idx}'',
      layer_weight_suffixes =
        [''input_layernorm.weight'',
         ''mlp.up_proj.weight'',
         ''mlp.down_proj.weight'',
         ''mlp.gate_proj.weight'',
         ''post_attention_layernorm.weight'',
         ''self_attn.q_proj.weight'',
         ''self_attn.k_proj.weight'',
         ''self_attn.v_proj.weight'',
         ''self_attn.o_proj.weight''],
      num_layers_key = None\<rparr>"

text \<open>\<open>StaticTensorNames(name=..., **LLAMA_INFO.model_dump(exclude=["name"]))\<close>\<close>

definition MISTRAL_INFO :: StaticTensorNames where
  "MISTRAL_INFO = LLAMA_INFO\<lparr>StaticTensorNames.name := ''MistralForCausalLM''\<rparr>"

definition STABLELM_INFO :: StaticTensorNames where
  "STABLELM_INFO =
     LLAMA_INFO
       \<lparr>StaticTensorNames.name := ''StableLMEpochForCausalLM'',
        post_weight_names := post_weight_names LLAMA_INFO @ [''model.norm.bias''],
        layer_weight_suffixes :=
          layer_weight_suffixes LLAMA_INFO
          @ [''input_layernorm.bias'', ''post_attention_layernorm.bias'']\<rparr>"

definition GPT_NEOX_INFO :: StaticTensorNames where
  "GPT_NEOX_INFO =
     \<lparr>StaticTensorNames.name = ''GPTNeoXForCausalLM'',
      pre_weight_names = [''gpt_neox.embed_in.weight''],
      post_weight_names =
        [''gpt_neox.final_layer_norm.bias'',
         ''gpt_neox.final_layer_norm.weight'',
         ''embed_out.weight''],
      embed_weight_names = [''gpt_neox.embed_in.weight'', ''embed_out.weight''],
      layer_prefix_format = ''gpt_neox.layers.{idx}'',
      layer_weight_suffixes =
        concat
          (map (\<lambda>pfx. [pfx @ ''.weight'', pfx @ ''.bias''])
             [''attention.dense'',
              ''attention.query_key_value'',
              ''input_layernorm'',
              ''mlp.dense_4h_to_h'',
              ''mlp.dense_h_to_4h'',
              ''post_attention_layernorm''])
        @ [''attention.bias'', ''attention.masked_bias'', ''attention.rotary_emb.inv_freq''],
      num_layers_key = None\<rparr>"

definition GPT2_INFO :: StaticTensorNames where
  "GPT2_INFO =
     \<lparr>StaticTensorNames.name = ''GPT2LMHeadModel'',
      pre_weight_names = [''wte.weight'', ''wpe.weight''],
      post_weight_names = [''ln_f.weight'', ''ln_f.bias''],
      embed_weight_names = [''wte.weight''],
      layer_prefix_format = ''h.{idx}'',
      layer_weight_suffixes =
        [''attn.c_attn.weight'',
         ''attn.c_attn.bias'',
         ''attn.c_proj.weight'',
         ''attn.c_proj.bias'',
         ''ln_1.weight'',
         ''ln_1.bias'',
         ''ln_2.weight'',
         ''ln_2.bias'',
         ''mlp.c_proj.weight'',
         ''mlp.c_proj.bias'',
         ''mlp.c_fc.weight'',
         ''mlp.c_fc.bias'',
         ''mlp.c_proj.weight'',
         ''mlp.c_proj.bias''],
      num_layers_key = Some ''n_layer''\<rparr>"

definition JAIS_INFO :: StaticTensorNames where
  "JAIS_INFO =
     \<lparr>StaticTensorNames.name = ''JAISLMHeadModel'',
      pre_weight_names = [''transformer.wte.weight'', ''transformer.relative_pe.slopes''],
      post_weight_names = [''transformer.ln_f.weight'', ''transformer.ln_f.bias''],
      embed_weight_names = [''transformer.wte.weight''],
      layer_prefix_format = ''transformer.h.{idx}'',
      layer_weight_suffixes =
        [''attn.c_attn.weight'',
         ''attn.c_attn.bias'',
         ''attn.c_proj.weight'',
         ''attn.c_proj.bias'',
         ''ln_1.weight'',
         ''ln_1.bias'',
         ''ln_2.weight'',
         ''ln_2.bias'',
         ''mlp.c_fc.weight'',
         ''mlp.c_fc.bias'',
         ''mlp.c_fc2.weight'',
         ''mlp.c_fc2.bias'',
         ''mlp.c_proj.weight'',
         ''mlp.c_proj.bias''],
      num_layers_key = Some ''n_layer''\<rparr>"

definition GPT2_SEQCLASS_INFO :: StaticTensorNames where
  "GPT2_SEQCLASS_INFO =
     \<lparr>StaticTensorNames.name = ''GPT2ForSequenceClassification'',
      pre_weight_names = [''transformer.wte.weight'', ''transformer.wpe.weight''],
      post_weight_names =
        [''transformer.ln_f.weight'',
         ''transformer.ln_f.bias'',
         ''score.weight''],
      embed_weight_names = embed_weight_names GPT2_INFO,
      layer_prefix_format = ''transformer.h.{idx}'',
      layer_weight_suffixes = layer_weight_suffixes GPT2_INFO,
      num_layers_key = num_layers_key GPT2_INFO\<rparr>"

definition QWEN_INFO :: StaticTensorNames where
  "QWEN_INFO =
     \<lparr>StaticTensorNames.name = ''QWenLMHeadModel'',
      pre_weight_names = [''transformer.wte.weight''],
      post_weight_names = [''transformer.ln_f.weight'', ''lm_head.weight''],
      embed_weight_names = [''transformer.wte.weight'', ''lm_head.weight''],
      layer_prefix_format = ''transformer.h.{idx}'',
      layer_weight_suffixes =
        [''attn.c_attn.bias'',
         ''attn.c_attn.weight'',
         ''attn.c_proj.weight'',
         ''ln_1.weight'',
         ''ln_2.weight'',
         ''mlp.c_proj.weight'',
         ''mlp.w1.weight'',
         ''mlp.w2.weight''],
      num_layers_key = None\<rparr>"

definition CHATGLM_INFO :: StaticTensorNames where
  "CHATGLM_INFO =
     \<lparr>StaticTensorNames.name = ''ChatGLMModel'',
      pre_weight_names =
        [''transformer.embedding.word_embeddings.weight'',
         ''transformer.rotary_pos_emb.inv_freq''],
      post_weight_names =
        [''transformer.encoder.final_layernorm.weight'',
         ''transformer.output_layer.weight''],
      embed_weight_names =
        [''transformer.embedding.word_embeddings.weight'',
         ''transformer.output_layer.weight''],
      layer_prefix_format = ''transformer.encoder.layers.{idx}'',
      layer_weight_suffixes =
        [''input_layernorm.weight'',
         ''mlp.dense_4h_to_h.weight'',
         ''mlp.dense_h_to_4h.weight'',
         ''post_attention_layernorm.weight'',
         ''self_attention.dense.weight'',
         ''self_attention.query_key_value.bias'',
         ''self_attention.query_key_value.weight''],
      num_layers_key = None\<rparr>"

definition FALCON_INFO :: StaticTensorNames where
  "FALCON_INFO =
     \<lparr>StaticTensorNames.name = ''FalconForCausalLM'',
      pre_weight_names = [''transformer.word_embeddings.weight''],
      post_weight_names =
        [''transformer.ln_f.weight'',
         ''transformer.ln_f.bias'',
         ''lm_head.weight''],
      embed_weight_names = [''transformer.word_embeddings.weight'', ''lm_head.weight''],
      layer_prefix_format = ''transformer.h.{idx}'',
      layer_weight_suffixes =
        [''ln_attn.bias'',
         ''ln_attn.weight'',
         ''ln_mlp.bias'',
         ''ln_mlp.weight'',
         ''mlp.dense_4h_to_h.weight'',
         ''mlp.dense_h_to_4h.weight'',
         ''self_attention.dense.weight'',
         ''self_attention.query_key_value.weight''],
      num_layers_key = None\<rparr>"

definition PHI2_INFO :: StaticTensorNames where
  "PHI2_INFO =
     \<lparr>StaticTensorNames.name = ''PhiForCausalLM'',
      pre_weight_names = [''transformer.embd.wte.weight''],
      post_weight_names =
        [''lm_head.linear.bias'',
         ''lm_head.linear.weight'',
         ''lm_head.ln.bias'',
         ''lm_head.ln.weight''],
      embed_weight_names = [''lm_head.linear.weight'', ''transformer.embd.wte.weight''],
      layer_prefix_format = ''transformer.h.{idx}'',
      layer_weight_suffixes =
        [''ln.bias'',
         ''ln.weight'',
         ''mixer.out_proj.bias'',
         ''mixer.out_proj.weight'',
         ''mixer.Wqkv.bias'',
         ''mixer.Wqkv.weight'',
         ''mlp.fc1.bias'',
         ''mlp.fc1.weight'',
         ''mlp.fc2.bias'',
         ''mlp.fc2.weight''],
      num_layers_key = Some ''n_layer''\<rparr>"

definition PHI2_INFO_AGAIN_BUT_DIFFERENT :: StaticTensorNames where
  "PHI2_INFO_AGAIN_BUT_DIFFERENT =
     \<lparr>StaticTensorNames.name = ''PhiForCausalLM'',
      pre_weight_names = [''model.embed_tokens.weight''],
      post_weight_names =
        [''lm_head.bias'',
         ''lm_head.weight'',
         ''model.final_layernorm.bias'',
         ''model.final_layernorm.weight''],
      embed_weight_names = [''lm_head.weight'', ''model.embed_tokens.weight''],
      layer_prefix_format = ''model.layers.{idx}'',
      layer_weight_suffixes =
        [''input_layernorm.bias'',
         ''input_layernorm.weight'',
         ''self_attn.dense.bias'',
         ''self_attn.dense.weight'',
         ''self_attn.q_proj.bias'',
         ''self_attn.q_proj.weight'',
         ''self_attn.k_proj.bias'',
         ''self_attn.k_proj.weight'',
         ''self_attn.v_proj.bias'',
         ''self_attn.v_proj.weight'',
         ''mlp.fc1.bias'',
         ''mlp.fc1.weight'',
         ''mlp.fc2.bias'',
         ''mlp.fc2.weight''],
      num_layers_key = None\<rparr>"

definition BAICHUAN_INFO :: StaticTensorNames where
  "BAICHUAN_INFO =
     \<lparr>StaticTensorNames.name = ''BaichuanForCausalLM'',
      pre_weight_names = [''model.embed_tokens.weight''],
      post_weight_names = [''model.norm.weight'', ''lm_head.weight''],
      embed_weight_names = [''model.embed_tokens.weight'', ''lm_head.weight''],
      layer_prefix_format = ''model.layers.{idx}'',
      layer_weight_suffixes =
        [''input_layernorm.weight'',
         ''self_attn.W_pack.weight'',
         ''self_attn.o_proj.weight'',
         ''post_attention_layernorm.weight'',
         ''mlp.gate_proj.weight'',
         ''mlp.down_proj.weight'',
         ''mlp.up_proj.weight''],
      num_layers_key = None\<rparr>"

section \<open>MixtralTensorNames\<close>

definition MixtralTensorNames_ARCHITECTURE_NAME :: string where
  "MixtralTensorNames_ARCHITECTURE_NAME = ''MixtralForCausalLM''"

text \<open>
  The object has the one field \<open>num_local_experts\<close>, which the functions take as their
  first argument. The two nested loops append the names expert by expert, the three
  parameters of an expert in the order \<open>w1\<close>, \<open>w2\<close>, \<open>w3\<close>.
\<close>

definition MixtralTensorNames_layer_weights :: "int \<Rightarrow> int \<Rightarrow> error + WeightInfo list option" where
  "MixtralTensorNames_layer_weights num_local_experts index =
     (case format_idx (layer_prefix_format MISTRAL_INFO) index of
        Inl e \<Rightarrow> Inl e
      | Inr pfx \<Rightarrow>
          (let tensor_names =
                 concat
                   (map (\<lambda>expert_idx.
                           map (\<lambda>param.
                                  pfx @ ''.block_sparse_moe.experts.'' @ str_int expert_idx
                                  @ ''.'' @ param @ ''.weight'')
                             [''w1'', ''w2'', ''w3''])
                      (range_py num_local_experts))
                 @ [pfx @ ''.block_sparse_moe.gate.weight'']
           in Inr (Some (map (\<lambda>n. mk_WeightInfo n (n \<in> set (embed_weight_names MISTRAL_INFO)))
                           tensor_names))))"

section \<open>PhiTensorNames\<close>

definition PhiTensorNames_ARCHITECTURE_NAME :: string where
  "PhiTensorNames_ARCHITECTURE_NAME = ''MixFormerSequentialForCausalLM''"

text \<open>The object has the one field \<open>n_layer\<close>.\<close>

definition PhiTensorNames_pre_weights :: "int \<Rightarrow> WeightInfo list" where
  "PhiTensorNames_pre_weights n_layer = [mk_WeightInfo ''layers.0.wte.weight'' True]"

definition PhiTensorNames_post_weights :: "int \<Rightarrow> WeightInfo list" where
  "PhiTensorNames_post_weights n_layer =
     (let fake_layer_idx = n_layer
      in map (\<lambda>sfx. mk_WeightInfo (''layers.'' @ str_int fake_layer_idx @ ''.'' @ sfx)
                      (prefix ''linear.'' sfx))
           [''linear.bias'', ''linear.weight'', ''ln.bias'', ''ln.weight''])"

definition PhiTensorNames_layer_weights :: "int \<Rightarrow> int \<Rightarrow> error + WeightInfo list option" where
  "PhiTensorNames_layer_weights n_layer index =
     Inr (Some (map (\<lambda>sfx. mk_WeightInfo (''layers.'' @ str_int index @ ''.'' @ sfx) False)
                  [''ln.bias'',
                   ''ln.weight'',
                   ''mixer.Wqkv.bias'',
                   ''mixer.Wqkv.weight'',
                   ''mixer.out_proj.bias'',
                   ''mixer.out_proj.weight'',
                   ''mixer.rotary_emb.inv_freq'',
                   ''mlp.fc1.bias'',
                   ''mlp.fc1.weight'',
                   ''mlp.fc2.bias'',
                   ''mlp.fc2.weight'']))"

section \<open>ArchitectureInfo\<close>

text \<open>The three classes that implement the abstract base class, and its methods by case.\<close>

datatype ArchitectureInfo =
    Static StaticTensorNames
  | MixtralTensorNames int
  | PhiTensorNames int

fun pre_weights :: "ArchitectureInfo \<Rightarrow> WeightInfo list" where
  "pre_weights (Static self) = StaticTensorNames_pre_weights self"
| "pre_weights (MixtralTensorNames num_local_experts) = StaticTensorNames_pre_weights MISTRAL_INFO"
| "pre_weights (PhiTensorNames n_layer) = PhiTensorNames_pre_weights n_layer"

fun post_weights :: "ArchitectureInfo \<Rightarrow> WeightInfo list" where
  "post_weights (Static self) = StaticTensorNames_post_weights self"
| "post_weights (MixtralTensorNames num_local_experts) = StaticTensorNames_post_weights MISTRAL_INFO"
| "post_weights (PhiTensorNames n_layer) = PhiTensorNames_post_weights n_layer"

fun layer_weights :: "ArchitectureInfo \<Rightarrow> int \<Rightarrow> error + WeightInfo list option" where
  "layer_weights (Static self) index = StaticTensorNames_layer_weights self index"
| "layer_weights (MixtralTensorNames num_local_experts) index =
     MixtralTensorNames_layer_weights num_local_experts index"
| "layer_weights (PhiTensorNames n_layer) index = PhiTensorNames_layer_weights n_layer index"

fun sliceable :: "ArchitectureInfo \<Rightarrow> bool" where
  "sliceable (Static self) = True"
| "sliceable (MixtralTensorNames num_local_experts) = True"
| "sliceable (PhiTensorNames n_layer) = True"

fun num_layers_config_key :: "ArchitectureInfo \<Rightarrow> string" where
  "num_layers_config_key (Static self) = StaticTensorNames_num_layers_config_key self"
| "num_layers_config_key (MixtralTensorNames num_local_experts) =
     StaticTensorNames_num_layers_config_key MISTRAL_INFO"
| "num_layers_config_key (PhiTensorNames n_layer) = ''n_layer''"

definition num_layers :: "ArchitectureInfo \<Rightarrow> PretrainedConfig \<Rightarrow> error + int" where
  "num_layers self config = getattr config (num_layers_config_key self)"

text \<open>
  The loop of \<open>all_weights\<close>. \<open>res.extend(None)\<close> raises TypeError, and an exception of
  \<open>layer_weights\<close> ends the loop.
\<close>

fun all_weights_loop ::
  "ArchitectureInfo \<Rightarrow> int list \<Rightarrow> WeightInfo list \<Rightarrow> error + WeightInfo list" where
  "all_weights_loop self [] res = Inr res"
| "all_weights_loop self (layer_idx # rest) res =
     (case layer_weights self layer_idx of
        Inl e \<Rightarrow> Inl e
      | Inr None \<Rightarrow> Inl (TypeError ([CHR 0x27] @ ''NoneType' object is not iterable''))
      | Inr (Some ws) \<Rightarrow> all_weights_loop self rest (res @ ws))"

definition all_weights :: "ArchitectureInfo \<Rightarrow> PretrainedConfig \<Rightarrow> error + WeightInfo list" where
  "all_weights self config =
     (case num_layers self config of
        Inl e \<Rightarrow> Inl e
      | Inr n \<Rightarrow>
          (case all_weights_loop self (range_py n) (pre_weights self) of
             Inl e \<Rightarrow> Inl e
           | Inr res \<Rightarrow> Inr (res @ post_weights self)))"

section \<open>Dispatch\<close>

subsection \<open>The two \<open>from_config\<close> constructors\<close>

text \<open>
  Both are written in their class with the parameters \<open>(cls, config)\<close>.
  \<open>MixtralTensorNames.from_config\<close> is decorated with \<open>@classmethod\<close>, so a call through
  the class passes the class as \<open>cls\<close>, before the arguments of the call.
  \<open>PhiTensorNames.from_config\<close> has no decorator: looked up on the class it is the plain
  function, and a call passes the arguments of the call only. \<open>call2\<close> is the call of a
  function of two positional parameters on a list of positional arguments.
\<close>

datatype pyobj = ClassObj string | ConfigObj PretrainedConfig

definition getattr_obj :: "pyobj \<Rightarrow> string \<Rightarrow> error + int" where
  "getattr_obj obj key =
     (case obj of
        ConfigObj config \<Rightarrow> getattr config key
      | ClassObj c \<Rightarrow> Inl (AttributeError key))"

definition call2 ::
  "string \<Rightarrow> string \<Rightarrow> (pyobj \<Rightarrow> pyobj \<Rightarrow> error + 'r) \<Rightarrow> pyobj list \<Rightarrow> error + 'r" where
  "call2 fname p2 f args =
     (case args of
        [] \<Rightarrow> Inl (TypeError (fname @ ''() missing 2 required positional arguments''))
      | [a] \<Rightarrow>
          Inl (TypeError (fname @ ''() missing 1 required positional argument: ''
                          @ [CHR 0x27] @ p2 @ [CHR 0x27]))
      | [a, b] \<Rightarrow> f a b
      | a # b # c # rest \<Rightarrow>
          Inl (TypeError (fname @ ''() takes 2 positional arguments but more were given'')))"

definition MixtralTensorNames_from_config :: "pyobj \<Rightarrow> pyobj \<Rightarrow> error + ArchitectureInfo" where
  "MixtralTensorNames_from_config cls config =
     (case getattr_obj config ''num_local_experts'' of
        Inl e \<Rightarrow> Inl e
      | Inr n \<Rightarrow> Inr (MixtralTensorNames n))"

definition PhiTensorNames_from_config :: "pyobj \<Rightarrow> pyobj \<Rightarrow> error + ArchitectureInfo" where
  "PhiTensorNames_from_config cls config =
     (case getattr_obj config ''n_layer'' of
        Inl e \<Rightarrow> Inl e
      | Inr n \<Rightarrow> Inr (PhiTensorNames n))"

subsection \<open>\<open>get_architecture_info\<close>\<close>

definition supported :: "StaticTensorNames list" where
  "supported =
     [LLAMA_INFO,
      MISTRAL_INFO,
      GPT_NEOX_INFO,
      QWEN_INFO,
      GPT2_INFO,
      GPT2_SEQCLASS_INFO,
      CHATGLM_INFO,
      STABLELM_INFO,
      JAIS_INFO,
      BAICHUAN_INFO,
      FALCON_INFO]"

text \<open>The scan of \<open>supported\<close> and the final \<open>raise\<close>.\<close>

definition scan_supported :: "string \<Rightarrow> error + ArchitectureInfo" where
  "scan_supported arch_name =
     (case find (\<lambda>arch. StaticTensorNames.name arch = arch_name) supported of
        Some arch \<Rightarrow> Inr (Static arch)
      | None \<Rightarrow> Inl (RuntimeError (''Unsupported architecture '' @ arch_name)))"

definition get_architecture_info :: "PretrainedConfig \<Rightarrow> error + ArchitectureInfo" where
  "get_architecture_info config =
     (if length (architectures config) \<noteq> 1 then
        Inl (RuntimeError ''More than one architecture in config?'')
      else
        (let arch_name = architectures config ! 0 in
         if arch_name = PhiTensorNames_ARCHITECTURE_NAME then
           call2 ''PhiTensorNames.from_config'' ''config''
             PhiTensorNames_from_config [ConfigObj config]
         else if arch_name = MixtralTensorNames_ARCHITECTURE_NAME then
           call2 ''MixtralTensorNames.from_config'' ''config''
             MixtralTensorNames_from_config [ClassObj ''MixtralTensorNames'', ConfigObj config]
         else if arch_name = StaticTensorNames.name PHI2_INFO then
           (if model_type config = ''phi-msft'' then Inr (Static PHI2_INFO)
            else if model_type config = ''phi'' then Inr (Static PHI2_INFO_AGAIN_BUT_DIFFERENT)
            else scan_supported arch_name)
         else scan_supported arch_name))"

section \<open>Notions used in the statements\<close>

text \<open>
  The static descriptors of the module: the eleven that \<open>get_architecture_info\<close> scans
  and the two registered under the shared name \<open>PhiForCausalLM\<close>.
\<close>

definition static_catalog :: "StaticTensorNames list" where
  "static_catalog = supported @ [PHI2_INFO, PHI2_INFO_AGAIN_BUT_DIFFERENT]"


text \<open>A configuration object with the given integer attributes.\<close>

definition config_of :: "string list \<Rightarrow> string \<Rightarrow> (string \<times> int) list \<Rightarrow> PretrainedConfig" where
  "config_of archs mt kvs = \<lparr>architectures = archs, model_type = mt, attrs = map_of kvs\<rparr>"

text \<open>
  Reading a decimal numeral back, the inverse of \<open>str_int\<close>; used to show that
  different indices are formatted differently.
\<close>

definition digit_val :: "char \<Rightarrow> nat" where
  "digit_val c = length (takeWhile (\<lambda>d. d \<noteq> c) ''0123456789'')"

definition read_nat :: "string \<Rightarrow> nat" where
  "read_nat s = foldl (\<lambda>a c. 10 * a + digit_val c) 0 s"

definition read_int :: "string \<Rightarrow> int" where
  "read_int s =
     (case s of
        [] \<Rightarrow> 0
      | c # r \<Rightarrow> if c = CHR ''-'' then - int (read_nat r) else int (read_nat s))"

text \<open>
  The list that \<open>layer_weights\<close> returns for \<open>GPT2_INFO\<close> (lemma
  \<open>layer_weights_GPT2_INFO\<close>): no name under \<open>h.\<close> is the embedding name \<open>wte.weight\<close>.
\<close>

definition gpt2_layer :: "int \<Rightarrow> WeightInfo list" where
  "gpt2_layer i = map (\<lambda>sfx. mk_WeightInfo (''h.'' @ str_int i @ ''.'' @ sfx) False)
                    (layer_weight_suffixes GPT2_INFO)"

section \<open>Formatting\<close>

lemma str_int_0: "str_int 0 = ''0''"
  by (simp add: str_int_def str_nat.simps digit_char_def)

lemma str_int_1: "str_int 1 = ''1''"
  by (simp add: str_int_def str_nat.simps digit_char_def)


section \<open>Layer weights of a static descriptor\<close>

lemma static_layer_loop_formatted:
  "format_idx (layer_prefix_format self) index = Inr p \<Longrightarrow>
   static_layer_loop self index sfxs res
     = Inr (res @ map (\<lambda>sfx. make_weightinfo self (p @ ''.'' @ sfx)) sfxs)"
  by (induction sfxs arbitrary: res) simp_all

lemma StaticTensorNames_layer_weights_formatted:
  "format_idx (layer_prefix_format self) index = Inr p \<Longrightarrow>
   StaticTensorNames_layer_weights self index
     = Inr (Some (map (\<lambda>sfx. make_weightinfo self (p @ ''.'' @ sfx))
                    (layer_weight_suffixes self)))"
  by (simp add: StaticTensorNames_layer_weights_def static_layer_loop_formatted)

section \<open>Dispatch\<close>

text \<open>
  C5. A configuration whose list of architecture names has length zero or more than
  one makes \<open>get_architecture_info\<close> raise RuntimeError. The result is the error
  whatever the other fields of the configuration hold: no name is resolved, no
  weight is enumerated, and no descriptor is returned.
\<close>

theorem get_architecture_info_not_one_name:
  "length (architectures config) \<noteq> 1 \<Longrightarrow>
   get_architecture_info config
     = Inl (RuntimeError ''More than one architecture in config?'')"
  by (simp add: get_architecture_info_def)

theorem get_architecture_info_not_one_name_witness:
  "length (architectures (config_of [] ''llama'' [(''num_hidden_layers'', 2)])) \<noteq> 1
   \<and> get_architecture_info (config_of [] ''llama'' [(''num_hidden_layers'', 2)])
       = Inl (RuntimeError ''More than one architecture in config?'')
   \<and> length (architectures
        (config_of [''LlamaForCausalLM'', ''MistralForCausalLM''] ''llama''
           [(''num_hidden_layers'', 2)])) \<noteq> 1
   \<and> get_architecture_info
        (config_of [''LlamaForCausalLM'', ''MistralForCausalLM''] ''llama''
           [(''num_hidden_layers'', 2)])
       = Inl (RuntimeError ''More than one architecture in config?'')"
  using get_architecture_info_not_one_name
          [of "config_of [] ''llama'' [(''num_hidden_layers'', 2)]"]
        get_architecture_info_not_one_name
          [of "config_of [''LlamaForCausalLM'', ''MistralForCausalLM''] ''llama''
                 [(''num_hidden_layers'', 2)]"]
  by (simp add: config_of_def)

section \<open>All weights of a model\<close>

lemma all_weights_loop_concat:
  "(\<forall>i\<in>set idxs. layer_weights self i = Inr (Some (lw i))) \<Longrightarrow>
   all_weights_loop self idxs res = Inr (res @ concat (map lw idxs))"
  by (induction idxs arbitrary: res) simp_all

lemma template_ok_MISTRAL_INFO: "template_ok (layer_prefix_format MISTRAL_INFO)"
  by (simp add: MISTRAL_INFO_def LLAMA_INFO_def)

lemma format_idx_MISTRAL_INFO:
  "format_idx (layer_prefix_format MISTRAL_INFO) index = Inr (''model.layers.'' @ str_int index)"
  by (simp add: MISTRAL_INFO_def LLAMA_INFO_def)


lemma length_concat_uniform:
  "(\<forall>x\<in>set xs. length (f x) = m) \<Longrightarrow> length (concat (map f xs)) = length xs * m"
  by (induction xs) simp_all








section \<open>The mixture-of-experts descriptor\<close>

lemma nth_concat_uniform:
  "(\<forall>x\<in>set xs. length (f x) = m) \<Longrightarrow> j < length xs \<Longrightarrow> k < m \<Longrightarrow>
   concat (map f xs) ! (m * j + k) = f (xs ! j) ! k"
proof (induction xs arbitrary: j)
  case Nil
  then show ?case by simp
next
  case (Cons x xs)
  show ?case
  proof (cases j)
    case 0
    with Cons.prems show ?thesis by (simp add: nth_append)
  next
    case (Suc j')
    with Cons.prems have "concat (map f xs) ! (m * j' + k) = f (xs ! j') ! k"
      by (intro Cons.IH) simp_all
    moreover have "m * j + k = length (f x) + (m * j' + k)"
      using Cons.prems Suc by simp
    ultimately show ?thesis
      using Suc by (simp add: nth_append)
  qed
qed

text \<open>
  C6. For the mixture-of-experts descriptor with expert count \<open>E \<ge> 0\<close> and every layer
  index, \<open>layer_weights\<close> returns exactly \<open>3 * E + 1\<close> WeightInfo values: expert by
  expert, for expert \<open>e\<close> the three parameters \<open>w1\<close>, \<open>w2\<close>, \<open>w3\<close> at the positions
  \<open>3 * e\<close>, \<open>3 * e + 1\<close>, \<open>3 * e + 2\<close>, then the one gate weight at position \<open>3 * E\<close>;
  every one of them has \<open>is_embed = False\<close>.
\<close>

theorem mixtral_layer_weights:
  assumes "0 \<le> E"
  shows "\<exists>ws. layer_weights (MixtralTensorNames E) index = Inr (Some ws)
     \<and> ws = concat (map (\<lambda>e. map (\<lambda>param. mk_WeightInfo
                    (''model.layers.'' @ str_int index @ ''.block_sparse_moe.experts.''
                     @ str_int e @ ''.'' @ param @ ''.weight'') False)
                  [''w1'', ''w2'', ''w3'']) [0..E - 1])
          @ [mk_WeightInfo
               (''model.layers.'' @ str_int index @ ''.block_sparse_moe.gate.weight'') False]
     \<and> length ws = nat (3 * E + 1)
     \<and> (\<forall>e k. 0 \<le> e \<and> e < E \<and> k < 3 \<longrightarrow>
            ws ! (3 * nat e + k) = mk_WeightInfo
                    (''model.layers.'' @ str_int index @ ''.block_sparse_moe.experts.''
                     @ str_int e @ ''.'' @ [''w1'', ''w2'', ''w3''] ! k @ ''.weight'') False)
     \<and> ws ! (3 * nat E) = mk_WeightInfo
          (''model.layers.'' @ str_int index @ ''.block_sparse_moe.gate.weight'') False
     \<and> (\<forall>w\<in>set ws. \<not> is_embed w)"
proof -
  let ?f = "\<lambda>e. map (\<lambda>param. mk_WeightInfo
                    (''model.layers.'' @ str_int index @ ''.block_sparse_moe.experts.''
                     @ str_int e @ ''.'' @ param @ ''.weight'') False)
                  [''w1'', ''w2'', ''w3'']"
  let ?gate = "mk_WeightInfo
                 (''model.layers.'' @ str_int index @ ''.block_sparse_moe.gate.weight'') False"
  let ?ws = "concat (map ?f [0..E - 1]) @ [?gate]"
  have run: "layer_weights (MixtralTensorNames E) index = Inr (Some ?ws)"
    by (simp add: MixtralTensorNames_layer_weights_def format_idx_MISTRAL_INFO range_py_def
          map_concat comp_def MISTRAL_INFO_def LLAMA_INFO_def)
  have unif: "\<forall>e\<in>set [0..E - 1]. length (?f e) = 3"
    by simp
  have len_experts: "length (concat (map ?f [0..E - 1])) = nat E * 3"
    using length_concat_uniform [OF unif] by simp
  then have len: "length ?ws = nat (3 * E + 1)"
    using assms by simp
  have nth: "?ws ! (3 * nat e + k) = mk_WeightInfo
                    (''model.layers.'' @ str_int index @ ''.block_sparse_moe.experts.''
                     @ str_int e @ ''.'' @ [''w1'', ''w2'', ''w3''] ! k @ ''.weight'') False"
    if "0 \<le> e" "e < E" "k < 3" for e k
  proof -
    have j: "nat e < length [0..E - 1]"
      using that by simp
    have "3 * nat e + k < nat E * 3"
      using that by simp
    then have "?ws ! (3 * nat e + k) = concat (map ?f [0..E - 1]) ! (3 * nat e + k)"
      using len_experts by (simp add: nth_append)
    also have "\<dots> = ?f ([0..E - 1] ! nat e) ! k"
      using nth_concat_uniform [OF unif j \<open>k < 3\<close>] .
    also have "[0..E - 1] ! nat e = e"
      using that by (simp add: nth_upto)
    finally have step: "?ws ! (3 * nat e + k) = ?f e ! k" .
    from \<open>k < 3\<close> consider "k = 0" | "k = 1" | "k = 2"
      by linarith
    then have "?f e ! k = mk_WeightInfo
                    (''model.layers.'' @ str_int index @ ''.block_sparse_moe.experts.''
                     @ str_int e @ ''.'' @ [''w1'', ''w2'', ''w3''] ! k @ ''.weight'') False"
      by cases simp_all
    with step show ?thesis
      by (rule trans)
  qed
  have gate: "?ws ! (3 * nat E) = ?gate"
    using len_experts by (simp add: nth_append mult.commute)
  have emb: "\<forall>w\<in>set ?ws. \<not> is_embed w"
    by (auto simp add: mk_WeightInfo_def)
  from run len nth gate emb show ?thesis
    by blast
qed

theorem mixtral_layer_weights_witness:
  "(0::int) \<le> 8
   \<and> (\<exists>ws. layer_weights (MixtralTensorNames 8) 0 = Inr (Some ws)
          \<and> length ws = 25
          \<and> ws ! 23
              = mk_WeightInfo ''model.layers.0.block_sparse_moe.experts.7.w3.weight'' False
          \<and> ws ! 24
              = mk_WeightInfo ''model.layers.0.block_sparse_moe.gate.weight'' False
          \<and> (\<forall>w\<in>set ws. \<not> is_embed w))"
proof -
  have s7: "str_int 7 = ''7''"
    by (simp add: str_int_def str_nat.simps digit_char_def)
  have le: "(0::int) \<le> 8"
    by simp
  from mixtral_layer_weights [OF le, of 0] obtain ws where
    run: "layer_weights (MixtralTensorNames 8) 0 = Inr (Some ws)" and
    len: "length ws = nat (3 * 8 + 1)" and
    nth: "\<forall>e k. 0 \<le> e \<and> e < 8 \<and> k < 3 \<longrightarrow>
            ws ! (3 * nat e + k) = mk_WeightInfo
                    (''model.layers.'' @ str_int 0 @ ''.block_sparse_moe.experts.''
                     @ str_int e @ ''.'' @ [''w1'', ''w2'', ''w3''] ! k @ ''.weight'') False" and
    gate: "ws ! (3 * nat 8) = mk_WeightInfo
          (''model.layers.'' @ str_int 0 @ ''.block_sparse_moe.gate.weight'') False" and
    emb: "\<forall>w\<in>set ws. \<not> is_embed w"
    by blast
  from nth have "(0::int) \<le> 7 \<and> (7::int) < 8 \<and> (2::nat) < 3 \<longrightarrow>
            ws ! (3 * nat 7 + 2) = mk_WeightInfo
                    (''model.layers.'' @ str_int 0 @ ''.block_sparse_moe.experts.''
                     @ str_int 7 @ ''.'' @ [''w1'', ''w2'', ''w3''] ! 2 @ ''.weight'') False"
    by blast
  then have n23: "ws ! 23
      = mk_WeightInfo ''model.layers.0.block_sparse_moe.experts.7.w3.weight'' False"
    by (simp add: str_int_0 s7)
  from gate have n24: "ws ! 24
      = mk_WeightInfo ''model.layers.0.block_sparse_moe.gate.weight'' False"
    by (simp add: str_int_0)
  from len have "length ws = 25"
    by simp
  with run n23 n24 emb le show ?thesis
    by blast
qed

section \<open>Decimal numerals are read back\<close>

lemma digit_cases:
  "k < 10 \<Longrightarrow>
   k = 0 \<or> k = 1 \<or> k = 2 \<or> k = 3 \<or> k = 4 \<or> k = 5 \<or> k = 6 \<or> k = 7 \<or> k = 8 \<or> k = (9::nat)"
  by arith

lemma digit_val_digit_char: "k < 10 \<Longrightarrow> digit_val (digit_char k) = k"
  using digit_cases [of k] by (auto simp add: digit_val_def digit_char_def)

lemma digit_char_digit: "k < 10 \<Longrightarrow> digit_char k \<in> set ''0123456789''"
  using digit_cases [of k] by (auto simp add: digit_char_def)

lemma read_nat_snoc: "read_nat (s @ [c]) = 10 * read_nat s + digit_val c"
  by (simp add: read_nat_def)

lemma read_nat_str_nat: "read_nat (str_nat n) = n"
proof (induction n rule: str_nat.induct)
  case (1 n)
  show ?case
  proof (cases "n < 10")
    case True
    then show ?thesis
      by (simp add: str_nat.simps [of n] read_nat_def digit_val_digit_char)
  next
    case False
    with 1 have "read_nat (str_nat (n div 10)) = n div 10"
      by simp
    with False show ?thesis
      by (simp add: str_nat.simps [of n] read_nat_snoc digit_val_digit_char)
  qed
qed

lemma str_nat_digits: "set (str_nat n) \<subseteq> set ''0123456789''"
proof (induction n rule: str_nat.induct)
  case (1 n)
  show ?case
  proof (cases "n < 10")
    case True
    then show ?thesis
      using digit_char_digit [of n] by (simp add: str_nat.simps [of n])
  next
    case False
    with 1 have "set (str_nat (n div 10)) \<subseteq> set ''0123456789''"
      by simp
    moreover have "digit_char (n mod 10) \<in> set ''0123456789''"
      by (rule digit_char_digit) simp
    ultimately show ?thesis
      using False by (simp add: str_nat.simps [of n])
  qed
qed

lemma str_nat_not_Nil: "str_nat n \<noteq> []"
  by (simp add: str_nat.simps [of n])

lemma hd_str_nat_not_minus: "str_nat n = c # r \<Longrightarrow> c \<noteq> CHR ''-''"
  using str_nat_digits [of n] by auto

lemma read_int_str_int: "read_int (str_int i) = i"
proof (cases "i < 0")
  case True
  then show ?thesis
    by (simp add: str_int_def read_int_def read_nat_str_nat)
next
  case False
  obtain c r where cr: "str_nat (nat i) = c # r"
    using str_nat_not_Nil [of "nat i"] by (cases "str_nat (nat i)") auto
  then have "c \<noteq> CHR ''-''"
    by (rule hd_str_nat_not_minus)
  with False cr show ?thesis
    using read_nat_str_nat [of "nat i"] by (simp add: str_int_def read_int_def)
qed

lemma str_int_inj: "str_int i = str_int j \<Longrightarrow> i = j"
  by (metis read_int_str_int)

lemma dot_notin_str_int: "CHR ''.'' \<notin> set (str_int i)"
  using str_nat_digits [of "nat i"] str_nat_digits [of "nat (- i)"]
  by (auto simp add: str_int_def)

lemma prefix_dot_unique:
  assumes a: "CHR ''.'' \<notin> set a" and b: "CHR ''.'' \<notin> set b"
    and p: "prefix (a @ ''.'') (b @ ''.'' @ s)"
  shows "a = b"
proof -
  from p obtain t where eq: "b @ ''.'' @ s = (a @ ''.'') @ t"
    by (auto simp add: prefix_def)
  have "takeWhile (\<lambda>c. c \<noteq> CHR ''.'') (b @ ''.'' @ s) = b"
    using b by (auto simp add: takeWhile_tail)
  moreover have "takeWhile (\<lambda>c. c \<noteq> CHR ''.'') ((a @ ''.'') @ t) = a"
    using a by (auto simp add: takeWhile_tail)
  ultimately show ?thesis
    using eq by simp
qed

lemma layer_prefix_unique:
  "prefix (lit @ str_int j @ ''.'') (lit @ str_int i @ ''.'' @ sfx) \<Longrightarrow> j = i"
proof -
  assume "prefix (lit @ str_int j @ ''.'') (lit @ str_int i @ ''.'' @ sfx)"
  then have "prefix (str_int j @ ''.'') (str_int i @ ''.'' @ sfx)"
    by simp
  then have "str_int j = str_int i"
    by (rule prefix_dot_unique [OF dot_notin_str_int dot_notin_str_int])
  then show ?thesis
    by (rule str_int_inj)
qed

lemma layer_name_unique:
  "lit @ str_int j @ ''.'' @ sfx = lit @ str_int i @ ''.'' @ sfx' \<Longrightarrow> j = i"
proof -
  assume "lit @ str_int j @ ''.'' @ sfx = lit @ str_int i @ ''.'' @ sfx'"
  then have "prefix (lit @ str_int j @ ''.'') (lit @ str_int i @ ''.'' @ sfx')"
    by (metis append.assoc prefixI)
  then show ?thesis
    by (rule layer_prefix_unique)
qed

section \<open>Layer names of the catalog\<close>

text \<open>Every template of the catalog is literal text followed by the field \<open>{idx}\<close>.\<close>

lemma format_idx_catalog:
  "d \<in> set static_catalog \<Longrightarrow>
   format_idx (layer_prefix_format d) i
     = Inr (take (length (layer_prefix_format d) - 5) (layer_prefix_format d) @ str_int i)"
  by (auto simp add: static_catalog_def supported_def LLAMA_INFO_def MISTRAL_INFO_def
        GPT_NEOX_INFO_def QWEN_INFO_def GPT2_INFO_def GPT2_SEQCLASS_INFO_def CHATGLM_INFO_def
        STABLELM_INFO_def JAIS_INFO_def BAICHUAN_INFO_def FALCON_INFO_def PHI2_INFO_def
        PHI2_INFO_AGAIN_BUT_DIFFERENT_def)

lemma template_ok_catalog: "d \<in> set static_catalog \<Longrightarrow> template_ok (layer_prefix_format d)"
  by (auto simp add: static_catalog_def supported_def LLAMA_INFO_def MISTRAL_INFO_def
        GPT_NEOX_INFO_def QWEN_INFO_def GPT2_INFO_def GPT2_SEQCLASS_INFO_def CHATGLM_INFO_def
        STABLELM_INFO_def JAIS_INFO_def BAICHUAN_INFO_def FALCON_INFO_def PHI2_INFO_def
        PHI2_INFO_AGAIN_BUT_DIFFERENT_def)

text \<open>
  C8, as the code has it. For every static descriptor of the catalog and every layer
  index \<open>i\<close>, each tensor name returned by \<open>layer_weights(i)\<close> is the layer prefix
  formatted with \<open>i\<close>, a dot and one of the suffixes, so it contains the formatted
  index \<open>i\<close>; and it does not begin with the layer prefix formatted with any other
  index \<open>j\<close> followed by a dot. The digits of another index may still occur elsewhere in
  the name, which is where the claim as stated fails.
\<close>

theorem layer_names_carry_index:
  "\<forall>d\<in>set static_catalog. \<forall>i.
     \<exists>p ws. format_idx (layer_prefix_format d) i = Inr p
          \<and> layer_weights (Static d) i = Inr (Some ws)
          \<and> (\<forall>w\<in>set ws.
                (\<exists>sfx\<in>set (layer_weight_suffixes d). WeightInfo.name w = p @ ''.'' @ sfx)
              \<and> sublist (str_int i) (WeightInfo.name w)
              \<and> (\<forall>j q. j \<noteq> i \<and> format_idx (layer_prefix_format d) j = Inr q
                       \<longrightarrow> \<not> prefix (q @ ''.'') (WeightInfo.name w)))"
proof (intro ballI allI)
  fix d i
  assume d: "d \<in> set static_catalog"
  define lit where "lit = take (length (layer_prefix_format d) - 5) (layer_prefix_format d)"
  have fmt: "format_idx (layer_prefix_format d) k = Inr (lit @ str_int k)" for k
    unfolding lit_def using d by (rule format_idx_catalog)
  let ?ws = "map (\<lambda>sfx. make_weightinfo d ((lit @ str_int i) @ ''.'' @ sfx))
               (layer_weight_suffixes d)"
  have run: "layer_weights (Static d) i = Inr (Some ?ws)"
    by (simp add: StaticTensorNames_layer_weights_formatted [OF fmt])
  have each: "(\<exists>sfx\<in>set (layer_weight_suffixes d).
                  WeightInfo.name w = (lit @ str_int i) @ ''.'' @ sfx)
              \<and> sublist (str_int i) (WeightInfo.name w)
              \<and> (\<forall>j q. j \<noteq> i \<and> format_idx (layer_prefix_format d) j = Inr q
                       \<longrightarrow> \<not> prefix (q @ ''.'') (WeightInfo.name w))"
    if w: "w \<in> set ?ws" for w
  proof -
    from w obtain sfx where sfx: "sfx \<in> set (layer_weight_suffixes d)"
      and nm: "WeightInfo.name w = lit @ str_int i @ ''.'' @ sfx"
      by (auto simp add: make_weightinfo_def mk_WeightInfo_def)
    have sub: "sublist (str_int i) (WeightInfo.name w)"
      unfolding nm by (rule sublist_appendI)
    have other: "\<not> prefix (q @ ''.'') (WeightInfo.name w)"
      if "j \<noteq> i" and q: "format_idx (layer_prefix_format d) j = Inr q" for j q
    proof
      assume "prefix (q @ ''.'') (WeightInfo.name w)"
      moreover from q have "q = lit @ str_int j"
        by (simp add: fmt)
      ultimately have "prefix (lit @ str_int j @ ''.'') (lit @ str_int i @ ''.'' @ sfx)"
        by (simp add: nm)
      then have "j = i"
        by (rule layer_prefix_unique)
      with \<open>j \<noteq> i\<close> show False
        by simp
    qed
    from sfx nm sub other show ?thesis
      by auto
  qed
  from fmt [of i] run each
  show "\<exists>p ws. format_idx (layer_prefix_format d) i = Inr p
          \<and> layer_weights (Static d) i = Inr (Some ws)
          \<and> (\<forall>w\<in>set ws.
                (\<exists>sfx\<in>set (layer_weight_suffixes d). WeightInfo.name w = p @ ''.'' @ sfx)
              \<and> sublist (str_int i) (WeightInfo.name w)
              \<and> (\<forall>j q. j \<noteq> i \<and> format_idx (layer_prefix_format d) j = Inr q
                       \<longrightarrow> \<not> prefix (q @ ''.'') (WeightInfo.name w)))"
    by blast
qed

theorem layer_names_carry_index_witness:
  "GPT2_INFO \<in> set static_catalog
   \<and> (\<exists>ws. layer_weights (Static GPT2_INFO) 0 = Inr (Some ws)
          \<and> (\<forall>w\<in>set ws. sublist ''0'' (WeightInfo.name w)
                         \<and> prefix ''h.0.'' (WeightInfo.name w)
                         \<and> \<not> prefix ''h.1.'' (WeightInfo.name w)))"
proof -
  have mem: "GPT2_INFO \<in> set static_catalog"
    by (simp add: static_catalog_def supported_def)
  have f0: "format_idx (layer_prefix_format GPT2_INFO) 0 = Inr ''h.0''"
    and f1: "format_idx (layer_prefix_format GPT2_INFO) 1 = Inr ''h.1''"
    by (simp_all add: GPT2_INFO_def str_int_0 str_int_1)
  from layer_names_carry_index mem obtain p ws where
    p: "format_idx (layer_prefix_format GPT2_INFO) 0 = Inr p" and
    run: "layer_weights (Static GPT2_INFO) 0 = Inr (Some ws)" and
    each: "\<forall>w\<in>set ws.
             (\<exists>sfx\<in>set (layer_weight_suffixes GPT2_INFO). WeightInfo.name w = p @ ''.'' @ sfx)
           \<and> sublist (str_int 0) (WeightInfo.name w)
           \<and> (\<forall>j q. j \<noteq> 0 \<and> format_idx (layer_prefix_format GPT2_INFO) j = Inr q
                    \<longrightarrow> \<not> prefix (q @ ''.'') (WeightInfo.name w))"
    by blast
  from p f0 have p0: "p = ''h.0''"
    by simp
  have "sublist ''0'' (WeightInfo.name w) \<and> prefix ''h.0.'' (WeightInfo.name w)
        \<and> \<not> prefix ''h.1.'' (WeightInfo.name w)" if w: "w \<in> set ws" for w
  proof -
    from each w
    have a: "\<exists>sfx\<in>set (layer_weight_suffixes GPT2_INFO). WeightInfo.name w = p @ ''.'' @ sfx"
      and b: "sublist (str_int 0) (WeightInfo.name w)"
      and c: "\<forall>j q. j \<noteq> 0 \<and> format_idx (layer_prefix_format GPT2_INFO) j = Inr q
                    \<longrightarrow> \<not> prefix (q @ ''.'') (WeightInfo.name w)"
      by blast+
    from c f1 have "\<not> prefix (''h.1'' @ ''.'') (WeightInfo.name w)"
      by (metis zero_neq_one)
    moreover from a p0 have "prefix ''h.0.'' (WeightInfo.name w)"
      by auto
    ultimately show ?thesis
      using b by (simp add: str_int_0)
  qed
  with mem run show ?thesis
    by blast
qed

text \<open>
  C8 as stated fails: layer 0 of the GPT-2 descriptor has the tensor \<open>h.0.ln_1.weight\<close>,
  whose name contains \<open>1\<close>, the formatted index of layer 1.
\<close>

theorem gpt2_layer0_name_contains_1:
  "GPT2_INFO \<in> set static_catalog
   \<and> map_sum id (map_option (\<lambda>ws. WeightInfo.name (ws ! 4))) (layer_weights (Static GPT2_INFO) 0)
       = Inr (Some ''h.0.ln_1.weight'')
   \<and> (1::int) \<noteq> 0
   \<and> str_int 1 = ''1''
   \<and> sublist (str_int 1) ''h.0.ln_1.weight''"
  by code_simp

section \<open>The duplicated suffixes of GPT-2\<close>

lemma count_list_concat_single:
  "distinct xs \<Longrightarrow> i \<in> set xs \<Longrightarrow> (\<forall>j\<in>set xs. j \<noteq> i \<longrightarrow> count_list (f j) x = 0) \<Longrightarrow>
   count_list (concat (map f xs)) x = count_list (f i) x"
proof (induction xs)
  case Nil
  then show ?case by simp
next
  case (Cons a xs)
  show ?case
  proof (cases "a = i")
    case True
    with Cons.prems have "\<forall>j\<in>set xs. count_list (f j) x = 0"
      by auto
    then have "count_list (concat (map f xs)) x = 0"
      by (induction xs) simp_all
    with True show ?thesis
      by simp
  next
    case False
    with Cons.prems have "count_list (concat (map f xs)) x = count_list (f i) x"
      by (intro Cons.IH) auto
    moreover from False Cons.prems have "count_list (f a) x = 0"
      by simp
    ultimately show ?thesis
      by simp
  qed
qed

lemma layer_weights_GPT2_INFO:
  "layer_weights (Static GPT2_INFO) i = Inr (Some (gpt2_layer i))"
proof -
  have "format_idx (layer_prefix_format GPT2_INFO) i = Inr (''h.'' @ str_int i)"
    by (simp add: GPT2_INFO_def)
  then show ?thesis
    by (simp add: StaticTensorNames_layer_weights_formatted gpt2_layer_def make_weightinfo_def
          GPT2_INFO_def)
qed

lemma mk_WeightInfo_eq: "mk_WeightInfo a e = mk_WeightInfo b e' \<longleftrightarrow> a = b \<and> e = e'"
  by (auto simp add: mk_WeightInfo_def)

lemma count_gpt2_layer_same:
  "count_list (gpt2_layer i) (mk_WeightInfo (''h.'' @ str_int i @ ''.mlp.c_proj.weight'') False) = 2"
  "count_list (gpt2_layer i) (mk_WeightInfo (''h.'' @ str_int i @ ''.mlp.c_proj.bias'') False) = 2"
  by (simp_all add: gpt2_layer_def GPT2_INFO_def mk_WeightInfo_eq)

lemma count_gpt2_layer_other:
  assumes "j \<noteq> i"
  shows "count_list (gpt2_layer j) (mk_WeightInfo (''h.'' @ str_int i @ ''.'' @ sfx) False) = 0"
proof -
  have "mk_WeightInfo (''h.'' @ str_int i @ ''.'' @ sfx) False \<notin> set (gpt2_layer j)"
  proof
    assume "mk_WeightInfo (''h.'' @ str_int i @ ''.'' @ sfx) False \<in> set (gpt2_layer j)"
    then obtain s where "''h.'' @ str_int i @ ''.'' @ sfx = ''h.'' @ str_int j @ ''.'' @ s"
      unfolding gpt2_layer_def by (auto simp add: mk_WeightInfo_eq)
    then have "i = j"
      by (rule layer_name_unique)
    with assms show False
      by simp
  qed
  then show ?thesis
    by (simp add: count_list_0_iff)
qed

lemma gpt2_all_weights:
  assumes n: "attrs config ''n_layer'' = Some N"
  shows "all_weights (Static GPT2_INFO) config
           = Inr (pre_weights (Static GPT2_INFO) @ concat (map gpt2_layer [0..N - 1])
                  @ post_weights (Static GPT2_INFO))"
proof -
  have "all_weights_loop (Static GPT2_INFO) (range_py N) (pre_weights (Static GPT2_INFO))
          = Inr (pre_weights (Static GPT2_INFO) @ concat (map gpt2_layer (range_py N)))"
    by (rule all_weights_loop_concat) (use layer_weights_GPT2_INFO in blast)
  moreover have "num_layers (Static GPT2_INFO) config = Inr N"
    by (simp add: num_layers_def getattr_def StaticTensorNames_num_layers_config_key_def
          GPT2_INFO_def n)
  ultimately show ?thesis
    by (simp add: all_weights_def range_py_def)
qed

lemma count_gpt2_all:
  assumes n: "attrs config ''n_layer'' = Some N" and i: "0 \<le> i" "i < N"
    and same: "count_list (gpt2_layer i)
                 (mk_WeightInfo (''h.'' @ str_int i @ ''.'' @ sfx) False) = c"
  shows "\<exists>ws. all_weights (Static GPT2_INFO) config = Inr ws
            \<and> count_list ws (mk_WeightInfo (''h.'' @ str_int i @ ''.'' @ sfx) False) = c"
proof -
  let ?x = "mk_WeightInfo (''h.'' @ str_int i @ ''.'' @ sfx) False"
  have pre: "count_list (pre_weights (Static GPT2_INFO)) ?x = 0"
    by (simp add: StaticTensorNames_pre_weights_def make_weightinfo_def GPT2_INFO_def
          mk_WeightInfo_eq)
  have post: "count_list (post_weights (Static GPT2_INFO)) ?x = 0"
    by (simp add: StaticTensorNames_post_weights_def make_weightinfo_def GPT2_INFO_def
          mk_WeightInfo_eq)
  have "count_list (concat (map gpt2_layer [0..N - 1])) ?x = count_list (gpt2_layer i) ?x"
    by (rule count_list_concat_single) (use i count_gpt2_layer_other in auto)
  with pre post same show ?thesis
    by (simp add: gpt2_all_weights [OF n])
qed

text \<open>
  C9. The per-layer suffix list of the GPT-2 descriptor contains \<open>mlp.c_proj.weight\<close>
  and \<open>mlp.c_proj.bias\<close> exactly twice each (positions 8 and 12, 9 and 13). For every
  layer index \<open>i\<close>, \<open>layer_weights(i)\<close> therefore contains the WeightInfo of
  \<open>h.i.mlp.c_proj.weight\<close> twice and that of \<open>h.i.mlp.c_proj.bias\<close> twice, and so does
  \<open>all_weights\<close> for every layer \<open>i\<close> below the layer count: nothing is deduplicated.
\<close>

theorem gpt2_duplicate_suffixes:
  "count_list (layer_weight_suffixes GPT2_INFO) ''mlp.c_proj.weight'' = 2
   \<and> count_list (layer_weight_suffixes GPT2_INFO) ''mlp.c_proj.bias'' = 2
   \<and> (\<forall>i. \<exists>ws. layer_weights (Static GPT2_INFO) i = Inr (Some ws)
          \<and> length ws = 14
          \<and> ws ! 8 = mk_WeightInfo (''h.'' @ str_int i @ ''.mlp.c_proj.weight'') False
          \<and> ws ! 12 = ws ! 8
          \<and> ws ! 9 = mk_WeightInfo (''h.'' @ str_int i @ ''.mlp.c_proj.bias'') False
          \<and> ws ! 13 = ws ! 9
          \<and> count_list ws (mk_WeightInfo (''h.'' @ str_int i @ ''.mlp.c_proj.weight'') False) = 2
          \<and> count_list ws (mk_WeightInfo (''h.'' @ str_int i @ ''.mlp.c_proj.bias'') False) = 2)
   \<and> (\<forall>config N i. attrs config ''n_layer'' = Some N \<and> 0 \<le> i \<and> i < N \<longrightarrow>
         (\<exists>ws. all_weights (Static GPT2_INFO) config = Inr ws
            \<and> count_list ws (mk_WeightInfo (''h.'' @ str_int i @ ''.mlp.c_proj.weight'') False) = 2
            \<and> count_list ws (mk_WeightInfo (''h.'' @ str_int i @ ''.mlp.c_proj.bias'') False) = 2))"
proof (intro conjI allI impI)
  show "count_list (layer_weight_suffixes GPT2_INFO) ''mlp.c_proj.weight'' = 2"
    by (simp add: GPT2_INFO_def)
  show "count_list (layer_weight_suffixes GPT2_INFO) ''mlp.c_proj.bias'' = 2"
    by (simp add: GPT2_INFO_def)
next
  fix i
  have "length (gpt2_layer i) = 14"
    and "gpt2_layer i ! 8 = mk_WeightInfo (''h.'' @ str_int i @ ''.mlp.c_proj.weight'') False"
    and "gpt2_layer i ! 12 = gpt2_layer i ! 8"
    and "gpt2_layer i ! 9 = mk_WeightInfo (''h.'' @ str_int i @ ''.mlp.c_proj.bias'') False"
    and "gpt2_layer i ! 13 = gpt2_layer i ! 9"
    by (simp_all add: gpt2_layer_def GPT2_INFO_def)
  with layer_weights_GPT2_INFO [of i] count_gpt2_layer_same [of i]
  show "\<exists>ws. layer_weights (Static GPT2_INFO) i = Inr (Some ws)
          \<and> length ws = 14
          \<and> ws ! 8 = mk_WeightInfo (''h.'' @ str_int i @ ''.mlp.c_proj.weight'') False
          \<and> ws ! 12 = ws ! 8
          \<and> ws ! 9 = mk_WeightInfo (''h.'' @ str_int i @ ''.mlp.c_proj.bias'') False
          \<and> ws ! 13 = ws ! 9
          \<and> count_list ws (mk_WeightInfo (''h.'' @ str_int i @ ''.mlp.c_proj.weight'') False) = 2
          \<and> count_list ws (mk_WeightInfo (''h.'' @ str_int i @ ''.mlp.c_proj.bias'') False) = 2"
    by blast
next
  fix config :: PretrainedConfig and N i :: int
  assume a: "attrs config ''n_layer'' = Some N \<and> 0 \<le> i \<and> i < N"
  then have n: "attrs config ''n_layer'' = Some N" and i: "0 \<le> i" "i < N"
    by simp_all
  from count_gpt2_all [OF n i, of "''mlp.c_proj.weight''" 2]
       count_gpt2_all [OF n i, of "''mlp.c_proj.bias''" 2]
       count_gpt2_layer_same [of i]
  show "\<exists>ws. all_weights (Static GPT2_INFO) config = Inr ws
            \<and> count_list ws (mk_WeightInfo (''h.'' @ str_int i @ ''.mlp.c_proj.weight'') False) = 2
            \<and> count_list ws (mk_WeightInfo (''h.'' @ str_int i @ ''.mlp.c_proj.bias'') False) = 2"
    by auto
qed

theorem gpt2_duplicate_suffixes_witness:
  "attrs (config_of [''GPT2LMHeadModel''] ''gpt2'' [(''n_layer'', 12)]) ''n_layer'' = Some 12
   \<and> (0::int) \<le> 11 \<and> (11::int) < 12
   \<and> (\<exists>ws. all_weights (Static GPT2_INFO)
              (config_of [''GPT2LMHeadModel''] ''gpt2'' [(''n_layer'', 12)]) = Inr ws
          \<and> count_list ws (mk_WeightInfo ''h.11.mlp.c_proj.weight'' False) = 2
          \<and> count_list ws (mk_WeightInfo ''h.11.mlp.c_proj.bias'' False) = 2)"
proof -
  have s: "str_int 11 = ''11''"
    by (simp add: str_int_def str_nat.simps digit_char_def)
  have h: "attrs (config_of [''GPT2LMHeadModel''] ''gpt2'' [(''n_layer'', 12)]) ''n_layer'' = Some 12
           \<and> (0::int) \<le> 11 \<and> (11::int) < 12"
    by (simp add: config_of_def)
  with gpt2_duplicate_suffixes
  have "\<exists>ws. all_weights (Static GPT2_INFO)
              (config_of [''GPT2LMHeadModel''] ''gpt2'' [(''n_layer'', 12)]) = Inr ws
          \<and> count_list ws (mk_WeightInfo (''h.'' @ str_int 11 @ ''.mlp.c_proj.weight'') False) = 2
          \<and> count_list ws (mk_WeightInfo (''h.'' @ str_int 11 @ ''.mlp.c_proj.bias'') False) = 2"
    by blast
  with h show ?thesis
    by (simp add: s)
qed

section \<open>The Llama scenario\<close>

text \<open>
  C7. A configuration declaring \<open>["LlamaForCausalLM"]\<close> with
  \<open>num_hidden_layers = 2\<close> is dispatched to \<open>LLAMA_INFO\<close>, and \<open>all_weights\<close> returns
  exactly 21 WeightInfo values: one pre-weight, nine weights for each of the layers 0
  and 1, two post-weights. The first and the last have \<open>is_embed = True\<close>, every
  per-layer weight has \<open>is_embed = False\<close> (and so has \<open>model.norm.weight\<close>, the last
  but one).
\<close>

theorem llama_two_layers:
  assumes archs: "architectures config = [''LlamaForCausalLM'']"
    and n: "attrs config ''num_hidden_layers'' = Some 2"
  shows "\<exists>ws l0 l1.
           get_architecture_info config = Inr (Static LLAMA_INFO)
         \<and> all_weights (Static LLAMA_INFO) config = Inr ws
         \<and> length ws = 21
         \<and> layer_weights (Static LLAMA_INFO) 0 = Inr (Some l0)
         \<and> layer_weights (Static LLAMA_INFO) 1 = Inr (Some l1)
         \<and> ws = pre_weights (Static LLAMA_INFO) @ l0 @ l1 @ post_weights (Static LLAMA_INFO)
         \<and> length (pre_weights (Static LLAMA_INFO)) = 1
         \<and> length l0 = 9 \<and> length l1 = 9
         \<and> length (post_weights (Static LLAMA_INFO)) = 2
         \<and> is_embed (hd ws) \<and> is_embed (last ws)
         \<and> (\<forall>w\<in>set (l0 @ l1). \<not> is_embed w)
         \<and> map is_embed ws = True # replicate 18 False @ [False, True]"
proof -
  have disp: "get_architecture_info config = Inr (Static LLAMA_INFO)"
    by (simp add: get_architecture_info_def archs PhiTensorNames_ARCHITECTURE_NAME_def
          MixtralTensorNames_ARCHITECTURE_NAME_def PHI2_INFO_def scan_supported_def
          supported_def LLAMA_INFO_def)
  have fmt: "format_idx (layer_prefix_format LLAMA_INFO) i = Inr (''model.layers.'' @ str_int i)"
    for i
    by (simp add: LLAMA_INFO_def)
  define l where
    "l = (\<lambda>i. map (\<lambda>sfx. make_weightinfo LLAMA_INFO ((''model.layers.'' @ str_int i) @ ''.'' @ sfx))
                (layer_weight_suffixes LLAMA_INFO))"
  have lw: "layer_weights (Static LLAMA_INFO) i = Inr (Some (l i))" for i
    by (simp add: l_def StaticTensorNames_layer_weights_formatted [OF fmt])
  have r: "range_py 2 = [0, 1]"
    by (simp add: range_py_def upto.simps)
  have key: "num_layers (Static LLAMA_INFO) config = Inr 2"
    by (simp add: num_layers_def getattr_def StaticTensorNames_num_layers_config_key_def
          default_num_layers_config_key_def LLAMA_INFO_def n)
  have all: "all_weights (Static LLAMA_INFO) config
               = Inr (pre_weights (Static LLAMA_INFO) @ l 0 @ l 1
                      @ post_weights (Static LLAMA_INFO))"
  proof -
    have "all_weights_loop (Static LLAMA_INFO) (range_py 2) (pre_weights (Static LLAMA_INFO))
            = Inr (pre_weights (Static LLAMA_INFO) @ concat (map l (range_py 2)))"
      by (rule all_weights_loop_concat) (use lw in blast)
    then show ?thesis
      by (simp add: all_weights_def key r)
  qed
  have lens: "length (l 0) = 9" "length (l 1) = 9"
    by (simp_all add: l_def LLAMA_INFO_def)
  have pre: "StaticTensorNames_pre_weights LLAMA_INFO
               = [mk_WeightInfo ''model.embed_tokens.weight'' True]"
    by (simp add: StaticTensorNames_pre_weights_def make_weightinfo_def LLAMA_INFO_def)
  have post: "StaticTensorNames_post_weights LLAMA_INFO
                = [mk_WeightInfo ''model.norm.weight'' False, mk_WeightInfo ''lm_head.weight'' True]"
    by (simp add: StaticTensorNames_post_weights_def make_weightinfo_def LLAMA_INFO_def)
  have emb: "map is_embed (l i) = replicate 9 False" for i
    by (simp add: l_def LLAMA_INFO_def make_weightinfo_def mk_WeightInfo_def numeral_eq_Suc)
  then have noemb: "\<forall>w\<in>set (l 0 @ l 1). \<not> is_embed w"
    by (metis in_set_replicate list.set_map imageI set_append Un_iff)
  have m: "map is_embed (pre_weights (Static LLAMA_INFO) @ l 0 @ l 1
                         @ post_weights (Static LLAMA_INFO))
             = True # replicate 18 False @ [False, True]"
    by (simp add: pre post emb mk_WeightInfo_def replicate_add [symmetric])
  have hdl:
    "is_embed (hd (pre_weights (Static LLAMA_INFO) @ l 0 @ l 1
                   @ post_weights (Static LLAMA_INFO)))"
    "is_embed (last (pre_weights (Static LLAMA_INFO) @ l 0 @ l 1
                     @ post_weights (Static LLAMA_INFO)))"
    by (simp_all add: pre post mk_WeightInfo_def)
  show ?thesis
    using disp all lw [of 0] lw [of 1] lens pre post hdl noemb m by auto
qed

theorem llama_two_layers_witness:
  "architectures (config_of [''LlamaForCausalLM''] ''llama'' [(''num_hidden_layers'', 2)])
     = [''LlamaForCausalLM'']
   \<and> attrs (config_of [''LlamaForCausalLM''] ''llama'' [(''num_hidden_layers'', 2)])
       ''num_hidden_layers'' = Some 2
   \<and> (\<exists>ws l0 l1.
           get_architecture_info
             (config_of [''LlamaForCausalLM''] ''llama'' [(''num_hidden_layers'', 2)])
             = Inr (Static LLAMA_INFO)
         \<and> all_weights (Static LLAMA_INFO)
             (config_of [''LlamaForCausalLM''] ''llama'' [(''num_hidden_layers'', 2)]) = Inr ws
         \<and> length ws = 21
         \<and> layer_weights (Static LLAMA_INFO) 0 = Inr (Some l0)
         \<and> layer_weights (Static LLAMA_INFO) 1 = Inr (Some l1)
         \<and> ws = pre_weights (Static LLAMA_INFO) @ l0 @ l1 @ post_weights (Static LLAMA_INFO)
         \<and> length (pre_weights (Static LLAMA_INFO)) = 1
         \<and> length l0 = 9 \<and> length l1 = 9
         \<and> length (post_weights (Static LLAMA_INFO)) = 2
         \<and> is_embed (hd ws) \<and> is_embed (last ws)
         \<and> (\<forall>w\<in>set (l0 @ l1). \<not> is_embed w)
         \<and> map is_embed ws = True # replicate 18 False @ [False, True])"
proof (intro conjI)
  show a: "architectures (config_of [''LlamaForCausalLM''] ''llama'' [(''num_hidden_layers'', 2)])
     = [''LlamaForCausalLM'']"
    by (simp add: config_of_def)
  show b: "attrs (config_of [''LlamaForCausalLM''] ''llama'' [(''num_hidden_layers'', 2)])
       ''num_hidden_layers'' = Some 2"
    by (simp add: config_of_def)
  show "\<exists>ws l0 l1.
           get_architecture_info
             (config_of [''LlamaForCausalLM''] ''llama'' [(''num_hidden_layers'', 2)])
             = Inr (Static LLAMA_INFO)
         \<and> all_weights (Static LLAMA_INFO)
             (config_of [''LlamaForCausalLM''] ''llama'' [(''num_hidden_layers'', 2)]) = Inr ws
         \<and> length ws = 21
         \<and> layer_weights (Static LLAMA_INFO) 0 = Inr (Some l0)
         \<and> layer_weights (Static LLAMA_INFO) 1 = Inr (Some l1)
         \<and> ws = pre_weights (Static LLAMA_INFO) @ l0 @ l1 @ post_weights (Static LLAMA_INFO)
         \<and> length (pre_weights (Static LLAMA_INFO)) = 1
         \<and> length l0 = 9 \<and> length l1 = 9
         \<and> length (post_weights (Static LLAMA_INFO)) = 2
         \<and> is_embed (hd ws) \<and> is_embed (last ws)
         \<and> (\<forall>w\<in>set (l0 @ l1). \<not> is_embed w)
         \<and> map is_embed ws = True # replicate 18 False @ [False, True]"
    by (rule llama_two_layers [OF a b])
qed

section \<open>Dispatch on the declared name\<close>

text \<open>The names that the scan of \<open>supported\<close> serves resolve to the descriptor of that name.\<close>

lemma get_architecture_info_supported:
  assumes "arch \<in> set supported"
    and "architectures config = [StaticTensorNames.name arch]"
  shows "get_architecture_info config = Inr (Static arch)"
  using assms
  by (auto simp add: get_architecture_info_def PhiTensorNames_ARCHITECTURE_NAME_def
        MixtralTensorNames_ARCHITECTURE_NAME_def scan_supported_def supported_def
        LLAMA_INFO_def MISTRAL_INFO_def GPT_NEOX_INFO_def QWEN_INFO_def GPT2_INFO_def
        GPT2_SEQCLASS_INFO_def CHATGLM_INFO_def STABLELM_INFO_def JAIS_INFO_def
        BAICHUAN_INFO_def FALCON_INFO_def PHI2_INFO_def)

lemma get_architecture_info_mixtral:
  assumes "architectures config = [''MixtralForCausalLM'']"
    and "attrs config ''num_local_experts'' = Some e"
  shows "get_architecture_info config = Inr (MixtralTensorNames e)"
  using assms
  by (simp add: get_architecture_info_def PhiTensorNames_ARCHITECTURE_NAME_def
        MixtralTensorNames_ARCHITECTURE_NAME_def call2_def MixtralTensorNames_from_config_def
        getattr_obj_def getattr_def)

text \<open>
  C2 at the name \<open>MixFormerSequentialForCausalLM\<close>: the dispatcher calls
  \<open>PhiTensorNames.from_config(config)\<close>, which is not a class method, so the one
  argument is bound to \<open>cls\<close> and the call raises TypeError for want of \<open>config\<close>;
  no descriptor is returned. The sibling call \<open>MixtralTensorNames.from_config(config)\<close>,
  whose function is a class method, returns its descriptor.
\<close>

theorem phi_from_config_not_classmethod:
  "get_architecture_info
     (config_of [''MixFormerSequentialForCausalLM''] ''mixformer-sequential'' [(''n_layer'', 24)])
   = Inl (TypeError (''PhiTensorNames.from_config() missing 1 required positional argument: ''
                     @ [CHR 0x27] @ ''config'' @ [CHR 0x27]))
   \<and> get_architecture_info
     (config_of [''MixtralForCausalLM''] ''mixtral'' [(''num_local_experts'', 8)])
   = Inr (MixtralTensorNames 8)"
  by (simp add: get_architecture_info_def config_of_def PhiTensorNames_ARCHITECTURE_NAME_def
        MixtralTensorNames_ARCHITECTURE_NAME_def call2_def MixtralTensorNames_from_config_def
        getattr_obj_def getattr_def)

section \<open>The shared name \<open>PhiForCausalLM\<close>\<close>

lemma phi_vocabulary:
  "filter (sublist ''mixer'') (layer_weight_suffixes PHI2_INFO)
     = [''mixer.out_proj.bias'', ''mixer.out_proj.weight'',
        ''mixer.Wqkv.bias'', ''mixer.Wqkv.weight'']"
  "filter (sublist ''linear'') (layer_weight_suffixes PHI2_INFO) = []"
  "filter (sublist ''linear'') (post_weight_names PHI2_INFO)
     = [''lm_head.linear.bias'', ''lm_head.linear.weight'']"
  "filter (sublist ''self_attn'') (layer_weight_suffixes PHI2_INFO) = []"
  "filter (sublist ''q_proj'') (layer_weight_suffixes PHI2_INFO) = []"
  "filter (sublist ''self_attn'') (layer_weight_suffixes PHI2_INFO_AGAIN_BUT_DIFFERENT)
     = [''self_attn.dense.bias'', ''self_attn.dense.weight'',
        ''self_attn.q_proj.bias'', ''self_attn.q_proj.weight'',
        ''self_attn.k_proj.bias'', ''self_attn.k_proj.weight'',
        ''self_attn.v_proj.bias'', ''self_attn.v_proj.weight'']"
  "filter (sublist ''q_proj'') (layer_weight_suffixes PHI2_INFO_AGAIN_BUT_DIFFERENT)
     = [''self_attn.q_proj.bias'', ''self_attn.q_proj.weight'']"
  "filter (sublist ''mixer'') (layer_weight_suffixes PHI2_INFO_AGAIN_BUT_DIFFERENT) = []"
  "filter (sublist ''linear'') (layer_weight_suffixes PHI2_INFO_AGAIN_BUT_DIFFERENT) = []"
  by code_simp+

lemma phi_pre_post_differ:
  "set (pre_weights (Static PHI2_INFO))
     \<inter> set (pre_weights (Static PHI2_INFO_AGAIN_BUT_DIFFERENT)) = {}"
  "set (post_weights (Static PHI2_INFO))
     \<inter> set (post_weights (Static PHI2_INFO_AGAIN_BUT_DIFFERENT)) = {}"
  "pre_weights (Static PHI2_INFO) \<noteq> pre_weights (Static PHI2_INFO_AGAIN_BUT_DIFFERENT)"
  "post_weights (Static PHI2_INFO) \<noteq> post_weights (Static PHI2_INFO_AGAIN_BUT_DIFFERENT)"
  by (simp_all add: StaticTensorNames_pre_weights_def StaticTensorNames_post_weights_def
        make_weightinfo_def mk_WeightInfo_eq PHI2_INFO_def PHI2_INFO_AGAIN_BUT_DIFFERENT_def)

lemma dispatch_shared_name:
  assumes "architectures config = [''PhiForCausalLM'']"
  shows "model_type config = ''phi-msft'' \<Longrightarrow>
           get_architecture_info config = Inr (Static PHI2_INFO)"
    and "model_type config = ''phi'' \<Longrightarrow>
           get_architecture_info config = Inr (Static PHI2_INFO_AGAIN_BUT_DIFFERENT)"
  using assms
  by (simp_all add: get_architecture_info_def PhiTensorNames_ARCHITECTURE_NAME_def
        MixtralTensorNames_ARCHITECTURE_NAME_def PHI2_INFO_def)

text \<open>
  C3, as the code has it. A configuration declaring \<open>PhiForCausalLM\<close> is dispatched on
  \<open>model_type\<close>: \<open>phi-msft\<close> gives \<open>PHI2_INFO\<close>, whose per-layer suffixes use the
  \<open>mixer\<close> vocabulary (four of them contain \<open>mixer\<close>, none contains \<open>self_attn\<close> or
  \<open>q_proj\<close>) while \<open>linear\<close> occurs in none of its per-layer suffixes, only in its
  post-weight names \<open>lm_head.linear.*\<close>; \<open>phi\<close> gives
  \<open>PHI2_INFO_AGAIN_BUT_DIFFERENT\<close>, whose per-layer suffixes use the
  \<open>self_attn\<close>/\<open>q_proj\<close> vocabulary and contain neither \<open>mixer\<close> nor \<open>linear\<close>. The
  pre-weight lists of the two descriptors differ, and so do their post-weight lists:
  they share no entry.
\<close>

theorem phi_dispatch_by_model_type:
  assumes archs: "architectures config = [''PhiForCausalLM'']"
  shows "(model_type config = ''phi-msft'' \<longrightarrow>
            get_architecture_info config = Inr (Static PHI2_INFO))
       \<and> (model_type config = ''phi'' \<longrightarrow>
            get_architecture_info config = Inr (Static PHI2_INFO_AGAIN_BUT_DIFFERENT))
       \<and> filter (sublist ''mixer'') (layer_weight_suffixes PHI2_INFO)
           = [''mixer.out_proj.bias'', ''mixer.out_proj.weight'',
              ''mixer.Wqkv.bias'', ''mixer.Wqkv.weight'']
       \<and> filter (sublist ''linear'') (layer_weight_suffixes PHI2_INFO) = []
       \<and> filter (sublist ''linear'') (post_weight_names PHI2_INFO)
           = [''lm_head.linear.bias'', ''lm_head.linear.weight'']
       \<and> filter (sublist ''self_attn'') (layer_weight_suffixes PHI2_INFO) = []
       \<and> filter (sublist ''q_proj'') (layer_weight_suffixes PHI2_INFO) = []
       \<and> filter (sublist ''self_attn'') (layer_weight_suffixes PHI2_INFO_AGAIN_BUT_DIFFERENT)
           = [''self_attn.dense.bias'', ''self_attn.dense.weight'',
              ''self_attn.q_proj.bias'', ''self_attn.q_proj.weight'',
              ''self_attn.k_proj.bias'', ''self_attn.k_proj.weight'',
              ''self_attn.v_proj.bias'', ''self_attn.v_proj.weight'']
       \<and> filter (sublist ''q_proj'') (layer_weight_suffixes PHI2_INFO_AGAIN_BUT_DIFFERENT)
           = [''self_attn.q_proj.bias'', ''self_attn.q_proj.weight'']
       \<and> filter (sublist ''mixer'') (layer_weight_suffixes PHI2_INFO_AGAIN_BUT_DIFFERENT) = []
       \<and> filter (sublist ''linear'') (layer_weight_suffixes PHI2_INFO_AGAIN_BUT_DIFFERENT) = []
       \<and> pre_weights (Static PHI2_INFO) \<noteq> pre_weights (Static PHI2_INFO_AGAIN_BUT_DIFFERENT)
       \<and> post_weights (Static PHI2_INFO) \<noteq> post_weights (Static PHI2_INFO_AGAIN_BUT_DIFFERENT)
       \<and> set (pre_weights (Static PHI2_INFO))
           \<inter> set (pre_weights (Static PHI2_INFO_AGAIN_BUT_DIFFERENT)) = {}
       \<and> set (post_weights (Static PHI2_INFO))
           \<inter> set (post_weights (Static PHI2_INFO_AGAIN_BUT_DIFFERENT)) = {}"
  using dispatch_shared_name [OF archs] phi_vocabulary phi_pre_post_differ
  by (intro conjI impI)

theorem phi_dispatch_by_model_type_witness:
  "architectures (config_of [''PhiForCausalLM''] ''phi-msft'' [(''n_layer'', 32)])
     = [''PhiForCausalLM'']
   \<and> model_type (config_of [''PhiForCausalLM''] ''phi-msft'' [(''n_layer'', 32)]) = ''phi-msft''
   \<and> get_architecture_info (config_of [''PhiForCausalLM''] ''phi-msft'' [(''n_layer'', 32)])
       = Inr (Static PHI2_INFO)
   \<and> architectures (config_of [''PhiForCausalLM''] ''phi'' [(''num_hidden_layers'', 32)])
       = [''PhiForCausalLM'']
   \<and> model_type (config_of [''PhiForCausalLM''] ''phi'' [(''num_hidden_layers'', 32)]) = ''phi''
   \<and> get_architecture_info (config_of [''PhiForCausalLM''] ''phi'' [(''num_hidden_layers'', 32)])
       = Inr (Static PHI2_INFO_AGAIN_BUT_DIFFERENT)"
proof -
  have a: "architectures (config_of [''PhiForCausalLM''] ''phi-msft'' [(''n_layer'', 32)])
             = [''PhiForCausalLM'']"
    and ma: "model_type (config_of [''PhiForCausalLM''] ''phi-msft'' [(''n_layer'', 32)])
             = ''phi-msft''"
    and b: "architectures (config_of [''PhiForCausalLM''] ''phi'' [(''num_hidden_layers'', 32)])
             = [''PhiForCausalLM'']"
    and mb: "model_type (config_of [''PhiForCausalLM''] ''phi'' [(''num_hidden_layers'', 32)])
             = ''phi''"
    by (simp_all add: config_of_def)
  from phi_dispatch_by_model_type [OF a] ma
  have ra: "get_architecture_info (config_of [''PhiForCausalLM''] ''phi-msft'' [(''n_layer'', 32)])
              = Inr (Static PHI2_INFO)"
    by blast
  from phi_dispatch_by_model_type [OF b] mb
  have rb: "get_architecture_info
              (config_of [''PhiForCausalLM''] ''phi'' [(''num_hidden_layers'', 32)])
              = Inr (Static PHI2_INFO_AGAIN_BUT_DIFFERENT)"
    by blast
  from a ma ra b mb rb show ?thesis
    by (intro conjI)
qed

text \<open>
  C3 as stated fails at the word \<open>linear\<close>: the descriptor that \<open>phi-msft\<close> selects
  has no per-layer suffix containing it.
\<close>

theorem phi_msft_suffixes_no_linear:
  "get_architecture_info (config_of [''PhiForCausalLM''] ''phi-msft'' [(''n_layer'', 32)])
     = Inr (Static PHI2_INFO)
   \<and> filter (sublist ''linear'') (layer_weight_suffixes PHI2_INFO) = []"
  by code_simp

text \<open>
  C4, as the code has it. With the shared name and a \<open>model_type\<close> that is neither
  \<open>phi-msft\<close> nor \<open>phi\<close> the dispatcher falls through to the scan of \<open>supported\<close>, finds
  no descriptor of that name and raises RuntimeError with the message
  \<open>Unsupported architecture PhiForCausalLM\<close>. The message carries the architecture
  name; it is the same for every such \<open>model_type\<close>, whose value it does not carry.
\<close>

theorem phi_unknown_model_type:
  assumes "architectures config = [''PhiForCausalLM'']"
    and "model_type config \<noteq> ''phi-msft''" and "model_type config \<noteq> ''phi''"
  shows "get_architecture_info config
           = Inl (RuntimeError ''Unsupported architecture PhiForCausalLM'')
       \<and> sublist ''PhiForCausalLM'' ''Unsupported architecture PhiForCausalLM''"
proof
  show "get_architecture_info config
          = Inl (RuntimeError ''Unsupported architecture PhiForCausalLM'')"
    using assms
    by (simp add: get_architecture_info_def PhiTensorNames_ARCHITECTURE_NAME_def
          MixtralTensorNames_ARCHITECTURE_NAME_def PHI2_INFO_def scan_supported_def
          supported_def LLAMA_INFO_def MISTRAL_INFO_def GPT_NEOX_INFO_def QWEN_INFO_def
          GPT2_INFO_def GPT2_SEQCLASS_INFO_def CHATGLM_INFO_def STABLELM_INFO_def
          JAIS_INFO_def BAICHUAN_INFO_def FALCON_INFO_def)
  show "sublist ''PhiForCausalLM'' ''Unsupported architecture PhiForCausalLM''"
    by code_simp
qed

theorem phi_unknown_model_type_witness:
  "architectures (config_of [''PhiForCausalLM''] ''phi3'' [(''num_hidden_layers'', 32)])
     = [''PhiForCausalLM'']
   \<and> model_type (config_of [''PhiForCausalLM''] ''phi3'' [(''num_hidden_layers'', 32)])
       \<noteq> ''phi-msft''
   \<and> model_type (config_of [''PhiForCausalLM''] ''phi3'' [(''num_hidden_layers'', 32)])
       \<noteq> ''phi''
   \<and> get_architecture_info
       (config_of [''PhiForCausalLM''] ''phi3'' [(''num_hidden_layers'', 32)])
       = Inl (RuntimeError ''Unsupported architecture PhiForCausalLM'')"
  using phi_unknown_model_type
          [of "config_of [''PhiForCausalLM''] ''phi3'' [(''num_hidden_layers'', 32)]"]
  by (simp add: config_of_def)

text \<open>
  C4 as stated fails: for \<open>model_type = phi3\<close> the error message does not contain the
  unexpected discriminator value.
\<close>

theorem phi_unknown_model_type_message:
  "get_architecture_info (config_of [''PhiForCausalLM''] ''phi3'' [(''num_hidden_layers'', 32)])
     = Inl (RuntimeError ''Unsupported architecture PhiForCausalLM'')
   \<and> model_type (config_of [''PhiForCausalLM''] ''phi3'' [(''num_hidden_layers'', 32)]) = ''phi3''
   \<and> \<not> sublist ''phi3'' ''Unsupported architecture PhiForCausalLM''"
  by code_simp

end
